theory Spec2Isabelle
  imports Complex_Main
begin

section \<open>The program state\<close>

text \<open>
  The file \<^verbatim>\<open>graphite-clickhouse.go\<close> wraps every \<^verbatim>\<open>http.ResponseWriter\<close> in a
  \<^verbatim>\<open>*LogResponseWriter\<close>, a pointer to a struct that embeds the wrapped writer and
  remembers the status code. Pointers are addresses into explicit heaps, so that
  "the same writer" means the same address.

  An interface value of type \<^verbatim>\<open>http.ResponseWriter\<close> is \<^verbatim>\<open>nil\<close>, a
  \<^verbatim>\<open>*LogResponseWriter\<close>, or a writer of some other implementation (the server's own
  response object, a test recorder).
\<close>

type_synonym addr = nat

datatype ResponseWriter = NilWriter | ServerWriter addr | LogWriter addr

text \<open>
  \<^verbatim>\<open>type LogResponseWriter struct { http.ResponseWriter; status int; cached bool }\<close>
\<close>

record LogResponseWriter =
  ResponseWriter :: ResponseWriter
  status :: int
  cached :: bool

text \<open>
  A writer of another implementation: its header map (the pairs in the order they
  were added), the status codes its \<^verbatim>\<open>WriteHeader\<close> has received, and whether it
  refuses a code outside 100..999 by panicking, as the writer of \<^verbatim>\<open>net/http\<close>'s server
  does.
\<close>

record response =
  header :: "(string \<times> string) list"
  written :: "int list"
  checks_code :: bool

text \<open>Fields of a log line, as the \<^verbatim>\<open>zap\<close> constructors build them.\<close>

datatype zap_field = zap_Duration int | zap_String string | zap_Int int | zap_Bool bool

record logger =
  logger_name :: string
  logger_fields :: "(string \<times> zap_field) list"

record entry =
  entry_logger :: string
  entry_message :: string
  entry_fields :: "(string \<times> zap_field) list"

text \<open>
  The world a request handler runs in: the two heaps, the clock that \<^verbatim>\<open>time.Now\<close>
  reads (in nanoseconds), and the lines written to the log so far.
\<close>

record world =
  responses :: "response list"
  wrappers :: "LogResponseWriter list"
  clock :: int
  access_log :: "entry list"

text \<open>A call returns or panics; the world it leaves behind is kept either way.\<close>

datatype 'a outcome = Return 'a | Panic

definition StatusOK :: int where
  "StatusOK = 200"

section \<open>LogResponseWriter\<close>

text \<open>
  \<^verbatim>\<open>WriteHeader\<close> of a writer of another implementation. A dangling address stands
  for a nil pointer.
\<close>

definition server_WriteHeader :: "addr \<Rightarrow> int \<Rightarrow> world \<Rightarrow> unit outcome \<times> world" where
  "server_WriteHeader a st s =
     (if a < length (responses s) then
        (let r = responses s ! a in
         if checks_code r \<and> (st < 100 \<or> 999 < st) then (Panic, s)
         else (Return (), s\<lparr>responses := (responses s)[a := r\<lparr>written := written r @ [st]\<rparr>]\<rparr>))
      else (Panic, s))"

text \<open>
  The method call \<^verbatim>\<open>w.WriteHeader(status)\<close> on an interface value, dispatched on its
  dynamic type. The branch for \<^verbatim>\<open>*LogResponseWriter\<close> is the method of the source:
  \<^verbatim>\<open>
  func (w *LogResponseWriter) WriteHeader(status int) {
      w.status = status
      w.ResponseWriter.WriteHeader(status)
  }
  \<close>
  The embedded writer may again be a \<^verbatim>\<open>*LogResponseWriter\<close>, so the call is
  recursive; on a cyclic chain it does not return, which is the value \<open>None\<close>.
\<close>

partial_function (option) rw_WriteHeader ::
  "ResponseWriter \<Rightarrow> int \<Rightarrow> world \<Rightarrow> (unit outcome \<times> world) option" where
  "rw_WriteHeader w st s =
     (case w of
        NilWriter \<Rightarrow> Some (Panic, s)
      | ServerWriter a \<Rightarrow> Some (server_WriteHeader a st s)
      | LogWriter a \<Rightarrow>
          (if a < length (wrappers s) then
             rw_WriteHeader (ResponseWriter (wrappers s ! a)) st
               (s\<lparr>wrappers := (wrappers s)[a := (wrappers s ! a)\<lparr>status := st\<rparr>]\<rparr>)
           else Some (Panic, s)))"

definition WriteHeader :: "addr \<Rightarrow> int \<Rightarrow> world \<Rightarrow> (unit outcome \<times> world) option" where
  "WriteHeader w st s = rw_WriteHeader (LogWriter w) st s"

text \<open>
  \<^verbatim>\<open>
  func (w *LogResponseWriter) Status() int {
      if w.status == 0 { return http.StatusOK }
      return w.status
  }
  \<close>
\<close>

definition Status :: "addr \<Rightarrow> world \<Rightarrow> int outcome" where
  "Status w s =
     (if w < length (wrappers s) then
        (if status (wrappers s ! w) = 0 then Return StatusOK
         else Return (status (wrappers s ! w)))
      else Panic)"

text \<open>
  \<^verbatim>\<open>
  func WrapResponseWriter(w http.ResponseWriter) *LogResponseWriter {
      if wrapped, ok := w.(*LogResponseWriter); ok { return wrapped }
      return &LogResponseWriter{ResponseWriter: w}
  }
  \<close>
  The type assertion succeeds exactly on a \<^verbatim>\<open>*LogResponseWriter\<close> (also on a nil
  pointer of that type); otherwise a new struct is allocated at the next free address.
\<close>

definition WrapResponseWriter :: "ResponseWriter \<Rightarrow> world \<Rightarrow> addr \<times> world" where
  "WrapResponseWriter w s =
     (case w of
        LogWriter wrapped \<Rightarrow> (wrapped, s)
      | _ \<Rightarrow>
          (length (wrappers s),
           s\<lparr>wrappers := wrappers s @ [\<lparr>ResponseWriter = w, status = 0, cached = False\<rparr>]\<rparr>))"

text \<open>
  The heaps the program can build: \<^verbatim>\<open>WrapResponseWriter\<close> is the only place that
  allocates a \<^verbatim>\<open>LogResponseWriter\<close>, and it never embeds one in another.
\<close>

definition flat :: "world \<Rightarrow> bool" where
  "flat s = list_all (\<lambda>l. case ResponseWriter l of LogWriter _ \<Rightarrow> False | _ \<Rightarrow> True) (wrappers s)"

section \<open>The access-logging handler\<close>

text \<open>
  An \<^verbatim>\<open>*http.Request\<close>, with the fields the file reads. The context is opaque: only
  the package \<^verbatim>\<open>pkg/scope\<close> looks into it.
\<close>

record 'ctx request =
  Method :: string
  URL :: string
  RemoteAddr :: string
  Header :: "(string \<times> string) list"
  Context :: 'ctx

text \<open>
  The functions of \<^verbatim>\<open>pkg/scope\<close> that the file calls. The package is not part of
  the sources, so its functions are parameters: \<^verbatim>\<open>scope.HttpRequest(r)\<close>,
  \<^verbatim>\<open>scope.RequestID(ctx)\<close>, \<^verbatim>\<open>scope.Grafana(ctx)\<close> and
  \<^verbatim>\<open>scope.LoggerWithHeaders(ctx, r, headers)\<close>.
\<close>

record 'ctx scope =
  HttpRequest :: "'ctx request \<Rightarrow> 'ctx request"
  RequestID :: "'ctx \<Rightarrow> string"
  Grafana :: "'ctx \<Rightarrow> string"
  LoggerWithHeaders :: "'ctx \<Rightarrow> 'ctx request \<Rightarrow> string list \<Rightarrow> logger"

text \<open>
  The configuration, with the fields the file reads: \<^verbatim>\<open>cfg.Common\<close>,
  \<^verbatim>\<open>cfg.Logging\<close> (opaque here) and \<^verbatim>\<open>cfg.Prometheus.Listen\<close>. Durations are in
  nanoseconds.
\<close>

record Common =
  Listen :: string
  PprofListen :: string
  MaxCPU :: int
  MemoryReturnInterval :: int
  HeadersToLog :: "string list"

record Config =
  Common :: Common
  Logging :: "string list"
  Prometheus_Listen :: string

text \<open>\<^verbatim>\<open>type App struct { config *config.Config }\<close>\<close>

record App =
  config :: Config

text \<open>
  An \<^verbatim>\<open>http.Handler\<close>: \<^verbatim>\<open>ServeHTTP(w, r)\<close> returns or panics, and leaves the
  request (which it holds by pointer) and the world as it changed them.
\<close>

type_synonym 'ctx handler =
  "ResponseWriter \<Rightarrow> 'ctx request \<Rightarrow> world \<Rightarrow> unit outcome \<times> 'ctx request \<times> world"

text \<open>
  \<^verbatim>\<open>http.Header\<close>: \<^verbatim>\<open>Add\<close> appends a value under a key, \<^verbatim>\<open>Get\<close> returns the first
  value under the key, or the empty string. Go compares keys in their canonical
  spelling; in the model a key is the string as written, the same at every use.
\<close>

definition Header_Add :: "string \<Rightarrow> string \<Rightarrow> (string \<times> string) list \<Rightarrow> (string \<times> string) list" where
  "Header_Add k v h = h @ [(k, v)]"

definition Header_Get :: "string \<Rightarrow> (string \<times> string) list \<Rightarrow> string" where
  "Header_Get k h = (case map_of h k of None \<Rightarrow> [] | Some v \<Rightarrow> v)"

text \<open>
  The method call \<^verbatim>\<open>w.Header()\<close> on an interface value. \<^verbatim>\<open>LogResponseWriter\<close> has no
  \<^verbatim>\<open>Header\<close> method of its own: the call is promoted to the embedded writer. The result
  is the address of the writer that owns the header map.
\<close>

partial_function (option) rw_Header :: "ResponseWriter \<Rightarrow> world \<Rightarrow> addr outcome option" where
  "rw_Header w s =
     (case w of
        NilWriter \<Rightarrow> Some Panic
      | ServerWriter a \<Rightarrow> Some (if a < length (responses s) then Return a else Panic)
      | LogWriter a \<Rightarrow>
          (if a < length (wrappers s) then rw_Header (ResponseWriter (wrappers s ! a)) s
           else Some Panic))"

text \<open>\<^verbatim>\<open>w.Header().Add(k, v)\<close>, once \<^verbatim>\<open>w.Header()\<close> has returned the map of writer \<open>h\<close>.\<close>

definition add_header :: "addr \<Rightarrow> string \<Rightarrow> string \<Rightarrow> world \<Rightarrow> world" where
  "add_header h k v s =
     s\<lparr>responses := (responses s)[h := (responses s ! h)\<lparr>header := Header_Add k v (header (responses s ! h))\<rparr>]\<rparr>"

text \<open>
  The \<^verbatim>\<open>zap\<close> logger: \<^verbatim>\<open>Named\<close> extends the logger's name, \<^verbatim>\<open>With\<close> adds fields,
  \<^verbatim>\<open>Info\<close> writes a line with the logger's fields followed by the call's.
\<close>

definition Named :: "logger \<Rightarrow> string \<Rightarrow> logger" where
  "Named l n = l\<lparr>logger_name := (if logger_name l = [] then n else logger_name l @ ''.'' @ n)\<rparr>"

definition With :: "logger \<Rightarrow> (string \<times> zap_field) list \<Rightarrow> logger" where
  "With l fs = l\<lparr>logger_fields := logger_fields l @ fs\<rparr>"

definition Info :: "logger \<Rightarrow> string \<Rightarrow> (string \<times> zap_field) list \<Rightarrow> world \<Rightarrow> world" where
  "Info l msg fs s =
     s\<lparr>access_log := access_log s @
        [\<lparr>entry_logger = logger_name l, entry_message = msg, entry_fields = logger_fields l @ fs\<rparr>]\<rparr>"

text \<open>\<^verbatim>\<open>net.JoinHostPort(host, port)\<close>: a host with a colon is put in brackets.\<close>

definition JoinHostPort :: "string \<Rightarrow> string \<Rightarrow> string" where
  "JoinHostPort host port =
     (if CHR '':'' \<in> set host then ''['' @ host @ '']:'' @ port else host @ '':'' @ port)"

text \<open>\<^verbatim>\<open>strings.Split(s, sep)[0]\<close> for a separator that is not empty: the text before its first occurrence.\<close>

fun Split_first :: "string \<Rightarrow> string \<Rightarrow> string" where
  "Split_first [] sep = []"
| "Split_first (c # cs) sep =
     (if take (length sep) (c # cs) = sep then [] else c # Split_first cs sep)"

text \<open>
  \<^verbatim>\<open>func (app *App) Handler(handler http.Handler) http.Handler\<close>: the function it
  returns, applied to \<open>w\<close> and \<open>r\<^sub>0\<close> in the world \<open>s\<^sub>0\<close>. The statements are those of the
  source, in its order; a panic of a call ends the function there, with no line logged.
\<close>

definition Handler ::
  "'ctx scope \<Rightarrow> App \<Rightarrow> 'ctx handler \<Rightarrow> ResponseWriter \<Rightarrow> 'ctx request \<Rightarrow> world
     \<Rightarrow> (unit outcome \<times> world) option" where
  "Handler sc app handler w r\<^sub>0 s\<^sub>0 =
     (case WrapResponseWriter w s\<^sub>0 of (writer, s\<^sub>1) \<Rightarrow>
       (let r = HttpRequest sc r\<^sub>0 in
        (case rw_Header w s\<^sub>1 of
           None \<Rightarrow> None
         | Some Panic \<Rightarrow> Some (Panic, s\<^sub>1)
         | Some (Return h) \<Rightarrow>
            (let s\<^sub>2 = add_header h ''X-Gch-Request-ID'' (RequestID sc (Context r)) s\<^sub>1;
                 start = clock s\<^sub>2
             in
             (case handler (LogWriter writer) r s\<^sub>2 of
                (Panic, r', s\<^sub>3) \<Rightarrow> Some (Panic, s\<^sub>3)
              | (Return _, r', s\<^sub>3) \<Rightarrow>
                 (let d = clock s\<^sub>3 - start;
                      logger\<^sub>0 = Named (LoggerWithHeaders sc (Context r') r'
                                          (HeadersToLog (Common (config app)))) ''http'';
                      grafana = Grafana sc (Context r');
                      logger = (if grafana \<noteq> [] then With logger\<^sub>0 [(''grafana'', zap_String grafana)]
                                else logger\<^sub>0);
                      peer = (if Header_Get ''X-Real-Ip'' (Header r') = [] then RemoteAddr r'
                              else JoinHostPort (Header_Get ''X-Real-Ip'' (Header r')) ''0'');
                      client = (if Header_Get ''X-Forwarded-For'' (Header r') \<noteq> []
                                then Split_first (Header_Get ''X-Forwarded-For'' (Header r')) '', ''
                                else Header_Get ''X-Forwarded-For'' (Header r'))
                  in
                  (case rw_Header w s\<^sub>3 of
                     None \<Rightarrow> None
                   | Some Panic \<Rightarrow> Some (Panic, s\<^sub>3)
                   | Some (Return h') \<Rightarrow>
                      (let cachedFind =
                             (Header_Get ''X-Cached-Find'' (header (responses s\<^sub>3 ! h')) = ''true'')
                       in
                       (case Status writer s\<^sub>3 of
                          Panic \<Rightarrow> Some (Panic, s\<^sub>3)
                        | Return st \<Rightarrow>
                            Some (Return (),
                              Info logger ''access''
                                [(''time'', zap_Duration d),
                                 (''method'', zap_String (Method r')),
                                 (''url'', zap_String (URL r')),
                                 (''peer'', zap_String peer),
                                 (''client'', zap_String client),
                                 (''status'', zap_Int st),
                                 (''find_cached'', zap_Bool cachedFind)] s\<^sub>3))))))))))"

text \<open>
  A handler that answers every request with status 500 and takes seven nanoseconds:
  a request that ends in a server error.
\<close>

definition failing_handler :: "'ctx handler" where
  "failing_handler w r s =
     (case rw_WriteHeader w 500 s of
        None \<Rightarrow> (Panic, r, s)
      | Some (res, s') \<Rightarrow> (res, r, s'\<lparr>clock := clock s' + 7\<rparr>))"

section \<open>The main function\<close>

text \<open>\<^verbatim>\<open>const Version = "0.13.4"\<close>\<close>

definition Version :: string where
  "Version = ''0.13.4''"

text \<open>A Go \<^verbatim>\<open>error\<close> that is not nil, by its message.\<close>

datatype error = Error string

text \<open>The command line, as \<^verbatim>\<open>flag.Parse\<close> left it: one field per flag variable.\<close>

record Flags =
  configFile :: string
  printDefaultConfig :: bool
  checkConfig :: bool
  buildTags :: bool
  pprof :: string
  printVersion :: bool
  verbose :: bool

text \<open>
  What the packages outside the file answer: \<^verbatim>\<open>config.PrintDefaultConfig\<close>,
  \<^verbatim>\<open>config.ReadConfig\<close>, \<^verbatim>\<open>zapwriter.ApplyConfig\<close>, \<^verbatim>\<open>zapwriter.NewManager\<close>,
  \<^verbatim>\<open>tagger.Make\<close>, \<^verbatim>\<open>prometheus.Run\<close>, whether \<^verbatim>\<open>metrics.Graphite\<close> is set, and
  \<^verbatim>\<open>http.ListenAndServe\<close> on the main address (it serves for ever, \<open>None\<close>, or
  returns an error). An error result \<open>None\<close> is Go's \<^verbatim>\<open>nil\<close>.

  The last field is \<^verbatim>\<open>http.ListenAndServe(listen, nil)\<close> of the pprof goroutine, line
  195, which runs beside \<^verbatim>\<open>main\<close>: the listener keeps listening, \<open>None\<close>, or it
  returns an error \<open>err\<close> and the goroutine's \<^verbatim>\<open>log.Fatal\<close> ends the process,
  \<open>Some (err, k)\<close>, where \<open>k\<close> is the number of further calls \<^verbatim>\<open>main\<close> has begun by
  then. The scheduler decides \<open>k\<close>; it is part of the environment.
\<close>

record env =
  config_PrintDefaultConfig :: "error option"
  config_ReadConfig :: "string \<Rightarrow> bool \<Rightarrow> error + Config"
  zapwriter_ApplyConfig :: "string list \<Rightarrow> error option"
  zapwriter_NewManager :: "string list \<Rightarrow> error option"
  tagger_Make :: "Config \<Rightarrow> error option"
  prometheus_Run :: "Config \<Rightarrow> error option"
  metrics_Graphite :: bool
  http_ListenAndServe :: "string \<Rightarrow> error option"
  pprof_ListenAndServe :: "string \<Rightarrow> (error \<times> nat) option"

text \<open>
  The handlers the other packages build from the configuration, and the handlers the
  file registers: one of those wrapped by \<^verbatim>\<open>app.Handler\<close>, or one of its two function
  literals.
\<close>

datatype endpoint =
    capabilities_NewHandler Config
  | find_NewHandler Config
  | index_NewHandler Config
  | render_NewHandler Config
  | autocomplete_NewTags Config
  | autocomplete_NewValues Config

datatype http_handler =
    App_Handler App endpoint
  | HandlerFunc_debug_config Config
  | HandlerFunc_alive

text \<open>An \<^verbatim>\<open>*http.ServeMux\<close>: its registrations, in their order.\<close>

type_synonym ServeMux = "(string \<times> http_handler) list"

text \<open>
  What \<^verbatim>\<open>main\<close> does, one event per call with an effect, in the order of the calls.
  \<open>go_FreeOSMemory\<close> and \<open>go_ListenAndServe\<close> are the two goroutines it starts (the
  memory ticker and the pprof listener on the default mux). The ticker loops for ever
  and ends nothing. The listener's goroutine ends the process when the listener
  fails: see \<open>beside_listener\<close> below.
\<close>

datatype event =
    rand_Seed
  | fmt_Print string
  | call_PrintDefaultConfig
  | call_ReadConfig string bool
  | call_ApplyConfig "string list"
  | call_NewManager "string list"
  | logger_Info string string "string list"
  | runtime_GOMAXPROCS int
  | go_FreeOSMemory int
  | go_ListenAndServe string
  | call_tagger_Make Config
  | mux_Handle string http_handler
  | call_prometheus_Run Config
  | call_Graphite_Start
  | call_ListenAndServe string ServeMux

text \<open>
  How \<^verbatim>\<open>main\<close> ends: it returns, \<^verbatim>\<open>log.Fatal\<close> ends the process with an error, the
  server runs for ever, or a call panics.
\<close>

datatype exit = Returned | Fatal error | Serving | Panicked

text \<open>
  \<^verbatim>\<open>mux.Handle(pattern, handler)\<close>: \<^verbatim>\<open>net/http\<close> panics on an empty pattern and on
  a pattern registered before.
\<close>

definition Handle :: "string \<Rightarrow> http_handler \<Rightarrow> ServeMux \<Rightarrow> ServeMux outcome" where
  "Handle pattern h mux =
     (if pattern = [] \<or> pattern \<in> fst ` set mux then Panic else Return (mux @ [(pattern, h)]))"

text \<open>The handler a mux holds for a pattern.\<close>

definition mux_handler :: "ServeMux \<Rightarrow> string \<Rightarrow> http_handler option" where
  "mux_handler mux pattern = map_of mux pattern"

text \<open>The eight registrations of \<^verbatim>\<open>main\<close>, lines 211 to 228.\<close>

definition routes :: "App \<Rightarrow> Config \<Rightarrow> (string \<times> http_handler) list" where
  "routes app cfg =
     [(''/_internal/capabilities/'', App_Handler app (capabilities_NewHandler cfg)),
      (''/metrics/find/'', App_Handler app (find_NewHandler cfg)),
      (''/metrics/index.json'', App_Handler app (index_NewHandler cfg)),
      (''/render/'', App_Handler app (render_NewHandler cfg)),
      (''/tags/autoComplete/tags'', App_Handler app (autocomplete_NewTags cfg)),
      (''/tags/autoComplete/values'', App_Handler app (autocomplete_NewValues cfg)),
      (''/debug/config'', HandlerFunc_debug_config cfg),
      (''/alive'', HandlerFunc_alive)]"

fun register :: "(string \<times> http_handler) list \<Rightarrow> ServeMux \<Rightarrow> event list \<times> ServeMux outcome" where
  "register [] mux = ([], Return mux)"
| "register ((pattern, h) # rest) mux =
     (case Handle pattern h mux of
        Panic \<Rightarrow> ([mux_Handle pattern h], Panic)
      | Return mux' \<Rightarrow>
          (case register rest mux' of (tr, res) \<Rightarrow> (mux_Handle pattern h # tr, res)))"

text \<open>Lines 208 to 240: the server mode, after the events \<open>tr\<close>.\<close>

definition serve :: "env \<Rightarrow> Config \<Rightarrow> event list \<Rightarrow> event list \<times> exit" where
  "serve ev cfg tr =
     (let app = \<lparr>config = cfg\<rparr> in
      (case register (routes app cfg) [] of
         (handles, Panic) \<Rightarrow> (tr @ handles, Panicked)
       | (handles, Return mux) \<Rightarrow>
          (let tr\<^sub>1 = tr @ handles;
               prom = (if Prometheus_Listen cfg \<noteq> [] then prometheus_Run ev cfg else None);
               tr\<^sub>2 = tr\<^sub>1 @ (if Prometheus_Listen cfg \<noteq> [] then [call_prometheus_Run cfg] else [])
           in
           (case prom of
              Some err \<Rightarrow> (tr\<^sub>2, Fatal err)
            | None \<Rightarrow>
               (let tr\<^sub>3 = tr\<^sub>2 @ (if metrics_Graphite ev then [call_Graphite_Start] else []);
                    tr\<^sub>4 = tr\<^sub>3 @ [call_ListenAndServe (Listen (Common cfg)) mux]
                in
                (case http_ListenAndServe ev (Listen (Common cfg)) of
                   Some err \<Rightarrow> (tr\<^sub>4, Fatal err)
                 | None \<Rightarrow> (tr\<^sub>4, Serving)))))))"

text \<open>
  Lines 190 to 196: whether the pprof goroutine is started, on which address, and what
  its listener answers. Without a listener nothing fails.
\<close>

definition pprof_failure :: "Flags \<Rightarrow> env \<Rightarrow> Config \<Rightarrow> (error \<times> nat) option" where
  "pprof_failure fl ev cfg =
     (if pprof fl \<noteq> [] \<or> PprofListen (Common cfg) \<noteq> []
      then pprof_ListenAndServe ev (if pprof fl \<noteq> [] then pprof fl else PprofListen (Common cfg))
      else None)"

text \<open>
  \<^verbatim>\<open>go func() { log.Fatal(http.ListenAndServe(listen, nil)) }()\<close> beside the rest of
  \<^verbatim>\<open>main\<close>, whose calls are \<open>fst rest\<close> and whose end is \<open>snd rest\<close>. When the listener
  fails after \<open>k\<close> of these calls have begun, the process ends there with the
  listener's error. When \<^verbatim>\<open>main\<close> has ended before (it needs fewer than \<open>k\<close> calls), the
  process has ended as \<^verbatim>\<open>main\<close> did; a server that would run for ever is ended by
  the listener's error all the same.
\<close>

definition beside_listener ::
  "(error \<times> nat) option \<Rightarrow> event list \<times> exit \<Rightarrow> event list \<times> exit" where
  "beside_listener failure rest =
     (case failure of
        None \<Rightarrow> rest
      | Some (err, k) \<Rightarrow>
          if k \<le> length (fst rest) then (take k (fst rest), Fatal err)
          else if snd rest = Serving then (fst rest, Fatal err)
          else rest)"

text \<open>Lines 155 to 206: logging, the runtime, the goroutines and the console command.\<close>

definition startup :: "Flags \<Rightarrow> env \<Rightarrow> Config \<Rightarrow> event list \<Rightarrow> event list \<times> exit" where
  "startup fl ev cfg tr =
     (case zapwriter_ApplyConfig ev (Logging cfg) of
        Some err \<Rightarrow> (tr @ [call_ApplyConfig (Logging cfg)], Fatal err)
      | None \<Rightarrow>
         (case zapwriter_NewManager ev (Logging cfg) of
            Some err \<Rightarrow> (tr @ [call_ApplyConfig (Logging cfg), call_NewManager (Logging cfg)], Fatal err)
          | None \<Rightarrow>
             (let tr\<^sub>1 = tr @ [call_ApplyConfig (Logging cfg), call_NewManager (Logging cfg),
                              logger_Info ''start'' ''starting graphite-clickhouse''
                                (if verbose fl then [''build_version'', ''config''] else [''build_version'']),
                              runtime_GOMAXPROCS (MaxCPU (Common cfg))];
                  tr\<^sub>2 = tr\<^sub>1 @ (if 0 < MemoryReturnInterval (Common cfg)
                                then [go_FreeOSMemory (MemoryReturnInterval (Common cfg))] else []);
                  tr\<^sub>3 = tr\<^sub>2 @ (if pprof fl \<noteq> [] \<or> PprofListen (Common cfg) \<noteq> []
                                then [go_ListenAndServe
                                        (if pprof fl \<noteq> [] then pprof fl else PprofListen (Common cfg))]
                                else []);
                  rest = (if buildTags fl then
                            (case tagger_Make ev cfg of
                               Some err \<Rightarrow> ([call_tagger_Make cfg], Fatal err)
                             | None \<Rightarrow> ([call_tagger_Make cfg], Returned))
                          else serve ev cfg [])
              in
              (case beside_listener (pprof_failure fl ev cfg) rest of
                 (tr', ex) \<Rightarrow> (tr\<^sub>3 @ tr', ex)))))"

text \<open>Lines 115 to 153: the flags that end the program early, and the configuration.\<close>

definition main :: "Flags \<Rightarrow> env \<Rightarrow> event list \<times> exit" where
  "main fl ev =
     (if printVersion fl then ([rand_Seed, fmt_Print Version], Returned)
      else if printDefaultConfig fl then
        (case config_PrintDefaultConfig ev of
           Some err \<Rightarrow> ([rand_Seed, call_PrintDefaultConfig], Fatal err)
         | None \<Rightarrow> ([rand_Seed, call_PrintDefaultConfig], Returned))
      else
        (case config_ReadConfig ev (configFile fl) (checkConfig fl) of
           Inl err \<Rightarrow> ([rand_Seed, call_ReadConfig (configFile fl) (checkConfig fl)], Fatal err)
         | Inr cfg \<Rightarrow>
            if checkConfig fl then
              ([rand_Seed, call_ReadConfig (configFile fl) (checkConfig fl)], Returned)
            else startup fl ev cfg [rand_Seed, call_ReadConfig (configFile fl) (checkConfig fl)]))"

text \<open>An event that registers a handler or starts the server on the main address.\<close>

fun serving_event :: "event \<Rightarrow> bool" where
  "serving_event (mux_Handle pattern h) = True"
| "serving_event (call_ListenAndServe listen mux) = True"
| "serving_event _ = False"

section \<open>Render alignment\<close>

text \<open>
  Modelled from the spec: the \<^verbatim>\<open>SeriesPoint\<close> of the data model,
  \<^verbatim>\<open>(timestamp, value, present:boolean)\<close>; the Render Pipeline is not part of the
  sources. Values are real numbers; the rounding of floating point is not modelled.
\<close>

record SeriesPoint =
  timestamp :: int
  point_value :: real
  present :: bool

text \<open>
  Modelled from the spec: "buckets every raw timestamp into the target step using
  floor division from \<^verbatim>\<open>start\<close>" (section 4.6); the Render Pipeline is not part of the
  sources.
\<close>

definition bucket_of :: "int \<Rightarrow> int \<Rightarrow> int \<Rightarrow> int" where
  "bucket_of start step t = (t - start) div step"

text \<open>
  Modelled from the spec: the "raw points landing in the same bucket" (section 4.6), in
  the order they arrived; the Render Pipeline is not part of the sources.
\<close>

definition bucket_values :: "int \<Rightarrow> int \<Rightarrow> (int \<times> real) list \<Rightarrow> int \<Rightarrow> real list" where
  "bucket_values start step raw k = map snd (filter (\<lambda>p. bucket_of start step (fst p) = k) raw)"

text \<open>
  Modelled from the spec: the default aggregation \<^verbatim>\<open>avg\<close> of "the configured
  aggregation (sum/avg/max/min/last - avg is the default)" (section 4.6); the Render
  Pipeline is not part of the sources.
\<close>

definition avg :: "real list \<Rightarrow> real" where
  "avg vs = sum_list vs / real (length vs)"

text \<open>
  Modelled from the spec: one output bucket. "multiple raw points landing in the same
  bucket are consolidated using the configured aggregation [...], gaps (no raw point in
  a bucket) are marked \<^verbatim>\<open>present=false\<close> rather than interpolated" (section 4.6); the
  Render Pipeline is not part of the sources. The aggregation is the parameter \<open>agg\<close>;
  the value field of a gap carries no information.
\<close>

definition align_bucket ::
  "(real list \<Rightarrow> real) \<Rightarrow> int \<Rightarrow> int \<Rightarrow> (int \<times> real) list \<Rightarrow> int \<Rightarrow> SeriesPoint" where
  "align_bucket agg start step raw k =
     (let vs = bucket_values start step raw k in
      if vs = [] then \<lparr>timestamp = start + k * step, point_value = 0, present = False\<rparr>
      else \<lparr>timestamp = start + k * step, point_value = agg vs, present = True\<rparr>)"

text \<open>
  Modelled from the spec: the aligned points of one series, for the \<open>n\<close> buckets of the
  requested range, "strictly ordered by timestamp" (section 3); the Render Pipeline is
  not part of the sources.
\<close>

definition align ::
  "(real list \<Rightarrow> real) \<Rightarrow> int \<Rightarrow> int \<Rightarrow> nat \<Rightarrow> (int \<times> real) list \<Rightarrow> SeriesPoint list" where
  "align agg start step n raw = map (\<lambda>k. align_bucket agg start step raw (int k)) [0..<n]"

section \<open>Cluster Executor\<close>

text \<open>
  Modelled from the spec: what one host answers to a sub-query. "a host fails (network
  error, non-2xx, or deadline exceeded)" (section 4.4); the Cluster Executor is not part
  of the sources. A host that succeeds answers with its rows.
\<close>

datatype host_reply = HostOk "string list" | NetworkError | Non2xx | DeadlineExceeded

fun host_failed :: "host_reply \<Rightarrow> bool" where
  "host_failed (HostOk rows) = False"
| "host_failed _ = True"

text \<open>
  Modelled from the spec: a shard, "one partition of the index/data tables served by one
  or more replica hosts" (glossary), each replica with the answer it gives; the Cluster
  Executor is not part of the sources.
\<close>

record shard =
  shard_name :: string
  replicas :: "host_reply list"

text \<open>
  Modelled from the spec: \<^verbatim>\<open>ExecError(PartialClusterFailure, failedShards)\<close>
  (section 4.4); the Cluster Executor is not part of the sources.
\<close>

datatype exec_failure = PartialClusterFailure

datatype exec_error = ExecError exec_failure "string list"

text \<open>
  Modelled from the spec: the failover policy. "if a host fails [...] and a spare host
  for the same shard exists, retry once on the spare before marking the shard failed"
  (section 4.4); the Cluster Executor is not part of the sources. \<open>None\<close> is a failed
  shard.
\<close>

fun query_shard :: "host_reply list \<Rightarrow> string list option" where
  "query_shard [] = None"
| "query_shard (HostOk rows # spares) = Some rows"
| "query_shard [failed] = None"
| "query_shard (failed # HostOk rows # spares) = Some rows"
| "query_shard (failed # failed' # spares) = None"

text \<open>
  Modelled from the spec: \<^verbatim>\<open>Execute\<close>. "if all replicas of any required shard fail,
  the whole request fails with \<^verbatim>\<open>ExecError(PartialClusterFailure, failedShards)\<close>";
  "Successful shard responses are merged: for index queries, by set union with
  de-duplication on path identity" (section 4.4); the Cluster Executor is not part of
  the sources.
\<close>

definition Execute :: "shard list \<Rightarrow> exec_error + string list" where
  "Execute shards =
     (let failedShards = map shard_name (filter (\<lambda>sh. query_shard (replicas sh) = None) shards) in
      if failedShards \<noteq> [] then Inl (ExecError PartialClusterFailure failedShards)
      else Inr (remdups (concat (map (\<lambda>sh. case query_shard (replicas sh) of
                                              None \<Rightarrow> [] | Some rows \<Rightarrow> rows) shards))))"

section \<open>Example inputs\<close>

text \<open>
  A world with two writers of other implementations and no \<^verbatim>\<open>LogResponseWriter\<close> yet:
  writer 0 accepts every status code, writer 1 panics on a code outside 100..999.
\<close>

definition example_world :: world where
  "example_world =
     \<lparr>responses = [\<lparr>header = [], written = [], checks_code = False\<rparr>,
                   \<lparr>header = [], written = [], checks_code = True\<rparr>],
      wrappers = [], clock = 0, access_log = []\<rparr>"

text \<open>
  A configuration, and an environment in which every call outside the file succeeds
  and the server, once started, runs for ever.
\<close>

definition example_config :: Config where
  "example_config =
     \<lparr>Common = \<lparr>Listen = '':9090'', PprofListen = [], MaxCPU = 1,
                 MemoryReturnInterval = 0, HeadersToLog = []\<rparr>,
      Logging = [], Prometheus_Listen = []\<rparr>"

definition example_env :: env where
  "example_env =
     \<lparr>config_PrintDefaultConfig = None,
      config_ReadConfig = (\<lambda>file check. Inr example_config),
      zapwriter_ApplyConfig = (\<lambda>logging. None),
      zapwriter_NewManager = (\<lambda>logging. None),
      tagger_Make = (\<lambda>cfg. None),
      prometheus_Run = (\<lambda>cfg. None),
      metrics_Graphite = False,
      http_ListenAndServe = (\<lambda>listen. None),
      pprof_ListenAndServe = (\<lambda>listen. None)\<rparr>"

definition example_app :: App where
  "example_app = \<lparr>config = example_config\<rparr>"

text \<open>
  Command lines: no flag but the default configuration file; \<^verbatim>\<open>-tags\<close>;
  \<^verbatim>\<open>-tags -version\<close>; and \<^verbatim>\<open>-tags -pprof nonsense\<close>, with the error of a listener
  on that address.
\<close>

definition server_flags :: Flags where
  "server_flags =
     \<lparr>configFile = ''/etc/graphite-clickhouse/graphite-clickhouse.conf'',
      printDefaultConfig = False, checkConfig = False, buildTags = False, pprof = [],
      printVersion = False, verbose = False\<rparr>"

definition tags_flags :: Flags where
  "tags_flags = server_flags\<lparr>buildTags := True\<rparr>"

definition tags_version_flags :: Flags where
  "tags_version_flags = server_flags\<lparr>buildTags := True, printVersion := True\<rparr>"

definition tags_pprof_flags :: Flags where
  "tags_pprof_flags = server_flags\<lparr>buildTags := True, pprof := ''nonsense''\<rparr>"

definition missing_port :: error where
  "missing_port = Error ''listen tcp: address nonsense: missing port in address''"

text \<open>
  Two environments for a pprof listener that fails: at once, before \<^verbatim>\<open>main\<close> begins
  another call; and late, when \<^verbatim>\<open>main\<close> would have begun five more calls.
\<close>

definition pprof_fails_env :: env where
  "pprof_fails_env = example_env\<lparr>pprof_ListenAndServe := (\<lambda>listen. Some (missing_port, 0))\<rparr>"

definition pprof_fails_late_env :: env where
  "pprof_fails_late_env = example_env\<lparr>pprof_ListenAndServe := (\<lambda>listen. Some (missing_port, 5))\<rparr>"

text \<open>
  A \<^verbatim>\<open>scope\<close> package whose context is the request id itself, and a request with
  the id \<^verbatim>\<open>req-1\<close> that came through a proxy.
\<close>

definition example_scope :: "string scope" where
  "example_scope =
     \<lparr>HttpRequest = (\<lambda>r. r), RequestID = (\<lambda>ctx. ctx), Grafana = (\<lambda>ctx. []),
      LoggerWithHeaders = (\<lambda>ctx r hs. \<lparr>logger_name = [], logger_fields = []\<rparr>)\<rparr>"

definition example_request :: "string request" where
  "example_request =
     \<lparr>Method = ''GET'', URL = ''/render/?target=a.b'', RemoteAddr = ''10.0.0.1:5000'',
      Header = [(''X-Forwarded-For'', ''10.1.1.1, 10.2.2.2'')], Context = ''req-1''\<rparr>"

text \<open>
  The raw points of the render example, \<^verbatim>\<open>{(t=5,v=1),(t=7,v=3)}\<close>, and two shards:
  the first replica of A fails and its spare answers; both replicas of B fail.
\<close>

definition example_raw :: "(int \<times> real) list" where
  "example_raw = [(5, 1), (7, 3)]"

definition shard_A :: shard where
  "shard_A = \<lparr>shard_name = ''A'', replicas = [NetworkError, HostOk [''a.b.c'', ''a.b.d'']]\<rparr>"

definition shard_B :: shard where
  "shard_B = \<lparr>shard_name = ''B'', replicas = [DeadlineExceeded, Non2xx]\<rparr>"

section \<open>Properties of the response writers\<close>

text \<open>
  A call of \<^verbatim>\<open>WriteHeader\<close> changes no \<^verbatim>\<open>LogResponseWriter\<close> but in its status, and
  every status it writes is the one it was called with.
\<close>

lemma rw_WriteHeader_frame:
  assumes "rw_WriteHeader w st s = Some y"
  shows "length (wrappers (snd y)) = length (wrappers s) \<and>
     (\<forall>i < length (wrappers s).
        status (wrappers (snd y) ! i) = st \<or> status (wrappers (snd y) ! i) = status (wrappers s ! i))"
proof (rule rw_WriteHeader.raw_induct[where P = "\<lambda>w st s y. length (wrappers (snd y)) = length (wrappers s) \<and>
     (\<forall>i < length (wrappers s).
        status (wrappers (snd y) ! i) = st \<or> status (wrappers (snd y) ! i) = status (wrappers s ! i))", OF _ assms])
  fix rec :: "ResponseWriter \<Rightarrow> int \<Rightarrow> world \<Rightarrow> (unit outcome \<times> world) option"
    and w st s y
  assume IH: "\<And>w st s y. rec w st s = Some y \<Longrightarrow>
     length (wrappers (snd y)) = length (wrappers s) \<and>
     (\<forall>i < length (wrappers s).
        status (wrappers (snd y) ! i) = st \<or> status (wrappers (snd y) ! i) = status (wrappers s ! i))"
  assume body: "(case w of
        NilWriter \<Rightarrow> Some (Panic, s)
      | ServerWriter a \<Rightarrow> Some (server_WriteHeader a st s)
      | LogWriter a \<Rightarrow>
          (if a < length (wrappers s) then
             rec (ResponseWriter (wrappers s ! a)) st
               (s\<lparr>wrappers := (wrappers s)[a := (wrappers s ! a)\<lparr>status := st\<rparr>]\<rparr>)
           else Some (Panic, s))) = Some y"
  show "length (wrappers (snd y)) = length (wrappers s) \<and>
     (\<forall>i < length (wrappers s).
        status (wrappers (snd y) ! i) = st \<or> status (wrappers (snd y) ! i) = status (wrappers s ! i))"
  proof (cases w)
    case NilWriter
    with body show ?thesis by auto
  next
    case (ServerWriter a)
    with body show ?thesis by (auto simp: server_WriteHeader_def Let_def split: if_splits)
  next
    case (LogWriter a)
    show ?thesis
    proof (cases "a < length (wrappers s)")
      case False
      with body LogWriter show ?thesis by auto
    next
      case True
      let ?s1 = "s\<lparr>wrappers := (wrappers s)[a := (wrappers s ! a)\<lparr>status := st\<rparr>]\<rparr>"
      from body LogWriter True
      have "rec (ResponseWriter (wrappers s ! a)) st ?s1 = Some y" by simp
      from IH[OF this]
      have len: "length (wrappers (snd y)) = length (wrappers s)"
        and upd: "\<And>i. i < length (wrappers s) \<Longrightarrow>
          status (wrappers (snd y) ! i) = st \<or>
          status (wrappers (snd y) ! i) = status (wrappers ?s1 ! i)"
        by simp_all
      show ?thesis
      proof (intro conjI allI impI)
        show "length (wrappers (snd y)) = length (wrappers s)" by (rule len)
      next
        fix i assume "i < length (wrappers s)"
        from upd[OF this] this
        show "status (wrappers (snd y) ! i) = st \<or>
              status (wrappers (snd y) ! i) = status (wrappers s ! i)"
          by (cases "i = a") (auto simp: nth_list_update)
      qed
    qed
  qed
qed

lemma WriteHeader_status:
  assumes "WriteHeader a st s = Some (r, s')" and "a < length (wrappers s)"
  shows "a < length (wrappers s') \<and> status (wrappers s' ! a) = st"
proof -
  let ?s1 = "s\<lparr>wrappers := (wrappers s)[a := (wrappers s ! a)\<lparr>status := st\<rparr>]\<rparr>"
  from assms have "rw_WriteHeader (ResponseWriter (wrappers s ! a)) st ?s1 = Some (r, s')"
    unfolding WriteHeader_def by (subst (asm) rw_WriteHeader.simps) simp
  from rw_WriteHeader_frame[OF this] assms(2) show ?thesis by auto
qed

lemma WriteHeader_unfold:
  "WriteHeader a st s =
     (if a < length (wrappers s) then
        rw_WriteHeader (ResponseWriter (wrappers s ! a)) st
          (s\<lparr>wrappers := (wrappers s)[a := (wrappers s ! a)\<lparr>status := st\<rparr>]\<rparr>)
      else Some (Panic, s))"
  unfolding WriteHeader_def by (subst rw_WriteHeader.simps) simp

lemma flat_nth:
  "flat s \<Longrightarrow> a < length (wrappers s) \<Longrightarrow> ResponseWriter (wrappers s ! a) \<noteq> LogWriter b"
  by (auto simp: flat_def list_all_length split: ResponseWriter.splits)

lemma WriteHeader_flat:
  assumes "flat s" and "a < length (wrappers s)"
  shows "\<exists>r s'. WriteHeader a st s = Some (r, s') \<and> flat s'"
proof (cases "ResponseWriter (wrappers s ! a)")
  case NilWriter
  then show ?thesis using assms
    apply (simp add: WriteHeader_unfold)
    apply (subst rw_WriteHeader.simps)
    apply (auto simp: flat_def list_all_length nth_list_update)
    done
next
  case (ServerWriter b)
  then show ?thesis using assms
    apply (simp add: WriteHeader_unfold)
    apply (subst rw_WriteHeader.simps)
    apply (auto simp: flat_def list_all_length nth_list_update server_WriteHeader_def Let_def)
    done
next
  case (LogWriter b)
  with flat_nth[OF assms, of b] show ?thesis by simp
qed

lemma WrapResponseWriter_flat:
  "flat s \<Longrightarrow> flat (snd (WrapResponseWriter w s))"
  by (auto simp: flat_def WrapResponseWriter_def split: ResponseWriter.splits)

text \<open>
  The frame: on the heaps the program builds, \<^verbatim>\<open>WriteHeader\<close> on one
  \<^verbatim>\<open>LogResponseWriter\<close> writes the status of that one and of no other, and
  \<^verbatim>\<open>WrapResponseWriter\<close> leaves the writers that exist as they are.
\<close>

lemma WriteHeader_flat_wrappers:
  assumes "flat s" and "WriteHeader b st s = Some (r, s')"
  shows "wrappers s' =
           (if b < length (wrappers s) then (wrappers s)[b := (wrappers s ! b)\<lparr>status := st\<rparr>]
            else wrappers s)"
proof (cases "b < length (wrappers s)")
  case False
  with assms(2) show ?thesis by (auto simp: WriteHeader_unfold)
next
  case True
  let ?s1 = "s\<lparr>wrappers := (wrappers s)[b := (wrappers s ! b)\<lparr>status := st\<rparr>]\<rparr>"
  from assms(2) True
  have run: "rw_WriteHeader (ResponseWriter (wrappers s ! b)) st ?s1 = Some (r, s')"
    by (simp add: WriteHeader_unfold)
  have "wrappers s' = wrappers ?s1"
  proof (cases "ResponseWriter (wrappers s ! b)")
    case NilWriter
    with run show ?thesis
      by (subst (asm) rw_WriteHeader.simps) auto
  next
    case (ServerWriter c)
    with run show ?thesis
      by (subst (asm) rw_WriteHeader.simps)
         (auto simp: server_WriteHeader_def Let_def split: if_splits)
  next
    case (LogWriter c)
    with flat_nth[OF assms(1) True, of c] show ?thesis by simp
  qed
  with True show ?thesis by simp
qed

lemma WriteHeader_other:
  assumes "flat s" and "a \<noteq> b" and "WriteHeader b st s = Some (r, s')"
  shows "Status a s' = Status a s"
  using WriteHeader_flat_wrappers[OF assms(1,3)] assms(2)
  by (auto simp: Status_def)

lemma WrapResponseWriter_other:
  assumes "a < length (wrappers s)"
  shows "Status a (snd (WrapResponseWriter w s)) = Status a s"
  using assms by (cases w) (simp_all add: WrapResponseWriter_def Status_def nth_append)

text \<open>
  Claim C9. \<^verbatim>\<open>WrapResponseWriter\<close> is idempotent. Given a writer that already is a
  \<^verbatim>\<open>*LogResponseWriter\<close>, it returns that very pointer and allocates nothing: the
  address is the same and the world is unchanged. So wrapping the result of a wrap
  again, in the world the first wrap left, returns the same pointer and the same
  world, for every writer \<open>w\<close>.
\<close>

theorem WrapResponseWriter_idempotent:
  "WrapResponseWriter (LogWriter a) s = (a, s) \<and>
   WrapResponseWriter (LogWriter (fst (WrapResponseWriter w s))) (snd (WrapResponseWriter w s))
     = WrapResponseWriter w s"
  by (cases w) (simp_all add: WrapResponseWriter_def)

text \<open>
  Claim C10, as amended. For a \<^verbatim>\<open>LogResponseWriter\<close> that \<^verbatim>\<open>WrapResponseWriter\<close> has
  just allocated, on which \<^verbatim>\<open>WriteHeader\<close> was never called, \<^verbatim>\<open>Status()\<close> is 200. After
  a call \<^verbatim>\<open>WriteHeader(st)\<close> that came back (it returned, or the embedded writer
  panicked), whatever the calls before it, \<^verbatim>\<open>Status()\<close> is \<open>st\<close>, except that it is 200
  when \<open>st\<close> is 0. On the heaps the program builds the call does come back, and leaves
  such a heap. \<^verbatim>\<open>Status()\<close> never returns 0. Nothing else changes what \<^verbatim>\<open>Status()\<close>
  returns: on the heaps the program builds, a call of \<^verbatim>\<open>WriteHeader\<close> on another
  \<^verbatim>\<open>LogResponseWriter\<close> leaves it as it was, and so does every call of
  \<^verbatim>\<open>WrapResponseWriter\<close>, which again leaves such a heap.
\<close>

theorem Status_after_WriteHeader:
  "((\<forall>a. w \<noteq> LogWriter a) \<longrightarrow>
      Status (fst (WrapResponseWriter w s\<^sub>0)) (snd (WrapResponseWriter w s\<^sub>0)) = Return 200) \<and>
   (a < length (wrappers s) \<and> WriteHeader a st s = Some (r, s') \<longrightarrow>
      Status a s' = Return (if st = 0 then 200 else st)) \<and>
   (flat s \<and> a < length (wrappers s) \<longrightarrow> (\<exists>r s'. WriteHeader a st s = Some (r, s') \<and> flat s')) \<and>
   Status a s \<noteq> Return 0 \<and>
   (flat s \<and> a \<noteq> b \<and> WriteHeader b st s = Some (r, s') \<longrightarrow> Status a s' = Status a s) \<and>
   (a < length (wrappers s) \<longrightarrow> Status a (snd (WrapResponseWriter w' s)) = Status a s) \<and>
   (flat s \<longrightarrow> flat (snd (WrapResponseWriter w' s)))"
proof (intro conjI impI)
  assume "\<forall>a. w \<noteq> LogWriter a"
  then show "Status (fst (WrapResponseWriter w s\<^sub>0)) (snd (WrapResponseWriter w s\<^sub>0)) = Return 200"
    by (cases w) (simp_all add: WrapResponseWriter_def Status_def StatusOK_def)
next
  assume "a < length (wrappers s) \<and> WriteHeader a st s = Some (r, s')"
  then have "a < length (wrappers s') \<and> status (wrappers s' ! a) = st"
    using WriteHeader_status by blast
  then show "Status a s' = Return (if st = 0 then 200 else st)"
    by (simp add: Status_def StatusOK_def)
next
  assume "flat s \<and> a < length (wrappers s)"
  then show "\<exists>r s'. WriteHeader a st s = Some (r, s') \<and> flat s'"
    using WriteHeader_flat by blast
next
  show "Status a s \<noteq> Return 0"
    by (simp add: Status_def StatusOK_def)
next
  assume "flat s \<and> a \<noteq> b \<and> WriteHeader b st s = Some (r, s')"
  then show "Status a s' = Status a s"
    using WriteHeader_other by blast
next
  assume "a < length (wrappers s)"
  then show "Status a (snd (WrapResponseWriter w' s)) = Status a s"
    by (rule WrapResponseWriter_other)
next
  assume "flat s"
  then show "flat (snd (WrapResponseWriter w' s))"
    by (rule WrapResponseWriter_flat)
qed

text \<open>
  Claim C10 as stated fails where the most recent call is \<^verbatim>\<open>WriteHeader(0)\<close>: the
  claim has \<^verbatim>\<open>Status()\<close> return the code passed, 0; the code returns 200. This is so
  with an embedded writer that accepts the code (writer 0, which has then received the
  code 0) and with one that panics on it after the status was recorded (writer 1).
\<close>

theorem Status_last_code_counterexample:
  "WriteHeader 0 0 (snd (WrapResponseWriter (ServerWriter 0) example_world)) =
     Some (Return (),
       \<lparr>responses = [\<lparr>header = [], written = [0], checks_code = False\<rparr>,
                     \<lparr>header = [], written = [], checks_code = True\<rparr>],
        wrappers = [\<lparr>ResponseWriter = ServerWriter 0, status = 0, cached = False\<rparr>],
        clock = 0, access_log = []\<rparr>) \<and>
   Status 0
       \<lparr>responses = [\<lparr>header = [], written = [0], checks_code = False\<rparr>,
                     \<lparr>header = [], written = [], checks_code = True\<rparr>],
        wrappers = [\<lparr>ResponseWriter = ServerWriter 0, status = 0, cached = False\<rparr>],
        clock = 0, access_log = []\<rparr> = Return 200 \<and>
   WriteHeader 0 0 (snd (WrapResponseWriter (ServerWriter 1) example_world)) =
     Some (Panic,
       \<lparr>responses = [\<lparr>header = [], written = [], checks_code = False\<rparr>,
                     \<lparr>header = [], written = [], checks_code = True\<rparr>],
        wrappers = [\<lparr>ResponseWriter = ServerWriter 1, status = 0, cached = False\<rparr>],
        clock = 0, access_log = []\<rparr>) \<and>
   Status 0
       \<lparr>responses = [\<lparr>header = [], written = [], checks_code = False\<rparr>,
                     \<lparr>header = [], written = [], checks_code = True\<rparr>],
        wrappers = [\<lparr>ResponseWriter = ServerWriter 1, status = 0, cached = False\<rparr>],
        clock = 0, access_log = []\<rparr> = Return 200"
  by (simp add: WriteHeader_unfold WrapResponseWriter_def example_world_def rw_WriteHeader.simps
        server_WriteHeader_def Status_def StatusOK_def)

text \<open>
  The amended claim C10 at a wrapper of writer 0: 200 before any call, 404 after
  \<^verbatim>\<open>WriteHeader(404)\<close>. And with a second wrapper, of writer 1: after \<^verbatim>\<open>WriteHeader(404)\<close>
  on the second, the first still reports 200 and the second 404.
\<close>

theorem Status_after_WriteHeader_witness:
  "Status (fst (WrapResponseWriter (ServerWriter 0) example_world))
      (snd (WrapResponseWriter (ServerWriter 0) example_world)) = Return 200 \<and>
   (\<exists>r s'. WriteHeader 0 404 (snd (WrapResponseWriter (ServerWriter 0) example_world)) = Some (r, s') \<and>
      Status 0 s' = Return 404) \<and>
   (\<exists>r s'. WriteHeader 1 404
             (snd (WrapResponseWriter (ServerWriter 1)
                    (snd (WrapResponseWriter (ServerWriter 0) example_world)))) = Some (r, s') \<and>
      Status 0 s' = Return 200 \<and> Status 1 s' = Return 404)"
proof -
  let ?s = "snd (WrapResponseWriter (ServerWriter 0) example_world)"
  let ?t = "snd (WrapResponseWriter (ServerWriter 1) ?s)"
  have fl: "flat ?s" and len: "0 < length (wrappers ?s)"
    by (simp_all add: flat_def WrapResponseWriter_def example_world_def)
  have fresh: "\<forall>a. ServerWriter 0 \<noteq> LogWriter a" by simp
  from Status_after_WriteHeader[where w = "ServerWriter 0" and s\<^sub>0 = example_world] fresh
  have first: "Status 0 ?s = Return 200"
    by (simp add: WrapResponseWriter_def example_world_def)
  from Status_after_WriteHeader[where a = 0 and s = ?s and st = 404] fl len
  obtain r s' where run: "WriteHeader 0 404 ?s = Some (r, s')" by blast
  from Status_after_WriteHeader[where a = 0 and s = ?s and st = 404 and r = r and s' = s'] len run
  have one: "Status 0 s' = Return 404" by simp
  from Status_after_WriteHeader[where a = 0 and s = ?s and w' = "ServerWriter 1"] fl len first
  have flt: "flat ?t" and kept: "Status 0 ?t = Return 200"
    by simp_all
  have len1: "1 < length (wrappers ?t)"
    by (simp add: WrapResponseWriter_def example_world_def)
  from Status_after_WriteHeader[where a = 1 and s = ?t and st = 404] flt len1
  obtain r' t' where run': "WriteHeader 1 404 ?t = Some (r', t')" by blast
  from Status_after_WriteHeader[where a = 1 and s = ?t and st = 404 and r = r' and s' = t'] len1 run'
  have two: "Status 1 t' = Return 404" by simp
  from Status_after_WriteHeader[where a = 0 and b = 1 and s = ?t and st = 404 and r = r' and s' = t']
    flt run' kept
  have other: "Status 0 t' = Return 200" by simp
  from first run one run' two other show ?thesis
    by (simp add: WrapResponseWriter_def example_world_def)
qed

section \<open>Properties of the access-logging handler\<close>

text \<open>
  \<^verbatim>\<open>w.Header()\<close> looks only at the chain of embedded writers: it returns the same
  map in a world that has kept the \<^verbatim>\<open>LogResponseWriter\<close>s it passes through and has
  no fewer writers of other implementations.
\<close>

lemma rw_Header_mono_aux:
  assumes run: "rw_Header w s\<^sub>0 = Some y"
    and wr: "\<forall>a < length (wrappers s). a < length (wrappers s') \<and> wrappers s' ! a = wrappers s ! a"
    and rs: "length (responses s) \<le> length (responses s')"
  shows "s\<^sub>0 = s \<longrightarrow> y \<noteq> Panic \<longrightarrow> rw_Header w s' = Some y"
proof (rule rw_Header.raw_induct[where P = "\<lambda>w s0 y. s0 = s \<longrightarrow> y \<noteq> Panic \<longrightarrow> rw_Header w s' = Some y",
      OF _ run])
  fix rec :: "ResponseWriter \<Rightarrow> world \<Rightarrow> addr outcome option" and w s0 y
  assume IH: "\<And>w s0 y. rec w s0 = Some y \<Longrightarrow> s0 = s \<longrightarrow> y \<noteq> Panic \<longrightarrow> rw_Header w s' = Some y"
  assume body: "(case w of
        NilWriter \<Rightarrow> Some Panic
      | ServerWriter a \<Rightarrow> Some (if a < length (responses s0) then Return a else Panic)
      | LogWriter a \<Rightarrow>
          (if a < length (wrappers s0) then rec (ResponseWriter (wrappers s0 ! a)) s0
           else Some Panic)) = Some y"
  show "s0 = s \<longrightarrow> y \<noteq> Panic \<longrightarrow> rw_Header w s' = Some y"
  proof (intro impI)
    assume eq: "s0 = s" and np: "y \<noteq> Panic"
    show "rw_Header w s' = Some y"
    proof (cases w)
      case NilWriter
      with body np show ?thesis by simp
    next
      case (ServerWriter a)
      with body np rs eq show ?thesis
        by (subst rw_Header.simps) (auto split: if_splits)
    next
      case (LogWriter a)
      with body np eq have lt: "a < length (wrappers s)"
        and rc: "rec (ResponseWriter (wrappers s ! a)) s = Some y"
        by (auto split: if_splits)
      from IH[OF rc] np have "rw_Header (ResponseWriter (wrappers s ! a)) s' = Some y" by simp
      with wr lt LogWriter show ?thesis
        by (subst rw_Header.simps) simp
    qed
  qed
qed

lemma rw_Header_mono:
  assumes "rw_Header w s = Some y"
    and "\<forall>a < length (wrappers s). a < length (wrappers s') \<and> wrappers s' ! a = wrappers s ! a"
    and "length (responses s) \<le> length (responses s')"
    and "y \<noteq> Panic"
  shows "rw_Header w s' = Some y"
  using rw_Header_mono_aux[OF assms(1-3)] assms(4) by simp

lemma rw_Header_bound_aux:
  assumes run: "rw_Header w s = Some y"
  shows "\<forall>h. y = Return h \<longrightarrow> h < length (responses s)"
proof (rule rw_Header.raw_induct[where P = "\<lambda>w s y. \<forall>h. y = Return h \<longrightarrow> h < length (responses s)",
      OF _ run])
  fix rec :: "ResponseWriter \<Rightarrow> world \<Rightarrow> addr outcome option" and w s y
  assume IH: "\<And>w s y. rec w s = Some y \<Longrightarrow> \<forall>h. y = Return h \<longrightarrow> h < length (responses s)"
  assume body: "(case w of
        NilWriter \<Rightarrow> Some Panic
      | ServerWriter a \<Rightarrow> Some (if a < length (responses s) then Return a else Panic)
      | LogWriter a \<Rightarrow>
          (if a < length (wrappers s) then rec (ResponseWriter (wrappers s ! a)) s
           else Some Panic)) = Some y"
  show "\<forall>h. y = Return h \<longrightarrow> h < length (responses s)"
  proof (cases w)
    case NilWriter
    with body show ?thesis by auto
  next
    case (ServerWriter a)
    with body show ?thesis by (auto split: if_splits)
  next
    case (LogWriter a)
    with body IH show ?thesis by (auto split: if_splits)
  qed
qed

lemma rw_Header_bound:
  "rw_Header w s = Some (Return h) \<Longrightarrow> h < length (responses s)"
  using rw_Header_bound_aux by blast

lemma rw_Header_Wrap:
  assumes "rw_Header w s = Some (Return h)"
  shows "rw_Header w (snd (WrapResponseWriter w s)) = Some (Return h)"
    and "rw_Header (LogWriter (fst (WrapResponseWriter w s))) (snd (WrapResponseWriter w s)) = Some (Return h)"
proof -
  let ?s1 = "snd (WrapResponseWriter w s)"
  show 1: "rw_Header w ?s1 = Some (Return h)"
    by (rule rw_Header_mono[OF assms])
       (auto simp: WrapResponseWriter_def nth_append split: ResponseWriter.splits)
  show "rw_Header (LogWriter (fst (WrapResponseWriter w s))) ?s1 = Some (Return h)"
  proof (cases "\<exists>a. w = LogWriter a")
    case True
    with 1 show ?thesis by (auto simp: WrapResponseWriter_def)
  next
    case False
    then have "fst (WrapResponseWriter w s) = length (wrappers s)"
      and "wrappers ?s1 = wrappers s @ [\<lparr>ResponseWriter = w, status = 0, cached = False\<rparr>]"
      by (cases w; simp add: WrapResponseWriter_def)+
    with 1 show ?thesis
      by (subst rw_Header.simps) simp
  qed
qed

lemma rw_Header_add_header:
  assumes "rw_Header w s = Some (Return h)"
  shows "rw_Header w (add_header h' k v s) = Some (Return h)"
  by (rule rw_Header_mono[OF assms]) (simp_all add: add_header_def)

lemma add_header_member:
  "h < length (responses s) \<Longrightarrow> (k, v) \<in> set (header (responses (add_header h k v s) ! h))"
  by (simp add: add_header_def Header_Add_def)

text \<open>
  Claim C8. Let \<open>w\<close> be a live writer whose header map is that of writer \<open>h\<close>. The
  wrapped handler is called with the \<^verbatim>\<open>LogResponseWriter\<close> of \<open>w\<close> in the world
  \<open>s\<^sub>2\<close>, in which the header map that this writer gives already holds
  \<^verbatim>\<open>X-Gch-Request-ID\<close> with the request id of the request's scope: the header is added
  before the handler runs. When the handler has returned (with whatever status, a
  server error included) exactly one line is added to the log, after everything the
  handler did: the message \<^verbatim>\<open>access\<close> with the request's method and URL, the status
  that \<^verbatim>\<open>Status()\<close> reports and the time the handler took. If the handler panics, it
  has not completed, the panic goes on to the caller and no line is written.
\<close>

theorem Handler_request_id_and_access_log:
  assumes "rw_Header w s\<^sub>0 = Some (Return h)"
    and "WrapResponseWriter w s\<^sub>0 = (writer, s\<^sub>1)"
    and "r = HttpRequest sc r\<^sub>0"
    and "s\<^sub>2 = add_header h ''X-Gch-Request-ID'' (RequestID sc (Context r)) s\<^sub>1"
    and "handler (LogWriter writer) r s\<^sub>2 = (res, r', s\<^sub>3)"
  shows "rw_Header (LogWriter writer) s\<^sub>2 = Some (Return h) \<and>
     (''X-Gch-Request-ID'', RequestID sc (Context r)) \<in> set (header (responses s\<^sub>2 ! h)) \<and>
     (res = Panic \<longrightarrow> Handler sc app handler w r\<^sub>0 s\<^sub>0 = Some (Panic, s\<^sub>3)) \<and>
     (res = Return () \<and> rw_Header w s\<^sub>3 = Some (Return h') \<and> Status writer s\<^sub>3 = Return st \<longrightarrow>
        (\<exists>e. Handler sc app handler w r\<^sub>0 s\<^sub>0 =
                Some (Return (), s\<^sub>3\<lparr>access_log := access_log s\<^sub>3 @ [e]\<rparr>) \<and>
             entry_message e = ''access'' \<and>
             {(''time'', zap_Duration (clock s\<^sub>3 - clock s\<^sub>2)),
              (''method'', zap_String (Method r')),
              (''url'', zap_String (URL r')),
              (''status'', zap_Int st)} \<subseteq> set (entry_fields e)))"
proof -
  from assms(2) have w1: "writer = fst (WrapResponseWriter w s\<^sub>0)" "s\<^sub>1 = snd (WrapResponseWriter w s\<^sub>0)"
    by simp_all
  have h1: "rw_Header w s\<^sub>1 = Some (Return h)"
    and hw: "rw_Header (LogWriter writer) s\<^sub>1 = Some (Return h)"
    unfolding w1 by (rule rw_Header_Wrap[OF assms(1)])+
  have a: "rw_Header (LogWriter writer) s\<^sub>2 = Some (Return h)"
    unfolding assms(4) by (rule rw_Header_add_header[OF hw])
  have b: "(''X-Gch-Request-ID'', RequestID sc (Context r)) \<in> set (header (responses s\<^sub>2 ! h))"
    unfolding assms(4) by (rule add_header_member[OF rw_Header_bound[OF h1]])
  have run: "handler (LogWriter writer) (HttpRequest sc r\<^sub>0)
               (add_header h ''X-Gch-Request-ID'' (RequestID sc (Context (HttpRequest sc r\<^sub>0))) s\<^sub>1)
             = (res, r', s\<^sub>3)"
    using assms(3,4,5) by simp
  have c: "res = Panic \<longrightarrow> Handler sc app handler w r\<^sub>0 s\<^sub>0 = Some (Panic, s\<^sub>3)"
    by (simp add: Handler_def assms(2) h1 Let_def run)
  have d: "res = Return () \<and> rw_Header w s\<^sub>3 = Some (Return h') \<and> Status writer s\<^sub>3 = Return st \<longrightarrow>
        (\<exists>e. Handler sc app handler w r\<^sub>0 s\<^sub>0 =
                Some (Return (), s\<^sub>3\<lparr>access_log := access_log s\<^sub>3 @ [e]\<rparr>) \<and>
             entry_message e = ''access'' \<and>
             {(''time'', zap_Duration (clock s\<^sub>3 - clock s\<^sub>2)),
              (''method'', zap_String (Method r')),
              (''url'', zap_String (URL r')),
              (''status'', zap_Int st)} \<subseteq> set (entry_fields e))"
  proof (intro impI, elim conjE)
    assume ok: "res = Return ()" and live: "rw_Header w s\<^sub>3 = Some (Return h')"
      and stat: "Status writer s\<^sub>3 = Return st"
    have clk: "clock s\<^sub>2 = clock s\<^sub>1" by (simp add: assms(4) add_header_def)
    define logger\<^sub>0 where "logger\<^sub>0 =
      Named (LoggerWithHeaders sc (Context r') r' (HeadersToLog (Common (config app)))) ''http''"
    define lg where "lg =
      (if Grafana sc (Context r') \<noteq> [] then With logger\<^sub>0 [(''grafana'', zap_String (Grafana sc (Context r')))]
       else logger\<^sub>0)"
    define peer where "peer =
      (if Header_Get ''X-Real-Ip'' (Header r') = [] then RemoteAddr r'
       else JoinHostPort (Header_Get ''X-Real-Ip'' (Header r')) ''0'')"
    define client where "client =
      (if Header_Get ''X-Forwarded-For'' (Header r') \<noteq> []
       then Split_first (Header_Get ''X-Forwarded-For'' (Header r')) '', ''
       else Header_Get ''X-Forwarded-For'' (Header r'))"
    define fs where "fs =
      [(''time'', zap_Duration (clock s\<^sub>3 - clock s\<^sub>2)),
       (''method'', zap_String (Method r')),
       (''url'', zap_String (URL r')),
       (''peer'', zap_String peer),
       (''client'', zap_String client),
       (''status'', zap_Int st),
       (''find_cached'', zap_Bool (Header_Get ''X-Cached-Find'' (header (responses s\<^sub>3 ! h')) = ''true''))]"
    define e where "e = \<lparr>entry_logger = logger_name lg, entry_message = ''access'',
                         entry_fields = logger_fields lg @ fs\<rparr>"
    have "Handler sc app handler w r\<^sub>0 s\<^sub>0 = Some (Return (), Info lg ''access'' fs s\<^sub>3)"
      using ok live stat run
      by (simp add: Handler_def assms(2,3,4) h1 Let_def logger\<^sub>0_def lg_def peer_def client_def fs_def)
    then have "Handler sc app handler w r\<^sub>0 s\<^sub>0 =
                 Some (Return (), s\<^sub>3\<lparr>access_log := access_log s\<^sub>3 @ [e]\<rparr>)"
      by (simp add: Info_def e_def)
    moreover have "entry_message e = ''access''"
      by (simp add: e_def)
    moreover have "{(''time'', zap_Duration (clock s\<^sub>3 - clock s\<^sub>2)),
              (''method'', zap_String (Method r')),
              (''url'', zap_String (URL r')),
              (''status'', zap_Int st)} \<subseteq> set (entry_fields e)"
      by (simp add: e_def fs_def)
    ultimately show "\<exists>e. Handler sc app handler w r\<^sub>0 s\<^sub>0 =
                Some (Return (), s\<^sub>3\<lparr>access_log := access_log s\<^sub>3 @ [e]\<rparr>) \<and>
             entry_message e = ''access'' \<and>
             {(''time'', zap_Duration (clock s\<^sub>3 - clock s\<^sub>2)),
              (''method'', zap_String (Method r')),
              (''url'', zap_String (URL r')),
              (''status'', zap_Int st)} \<subseteq> set (entry_fields e)"
      by blast
  qed
  from a b c d show ?thesis by blast
qed

text \<open>
  The failing handler on writer 1 of the example world, evaluated.
\<close>

lemma example_handler_run:
  "failing_handler (LogWriter 0) example_request
     (add_header 1 ''X-Gch-Request-ID'' ''req-1'' (snd (WrapResponseWriter (ServerWriter 1) example_world)))
   = (Return (), example_request,
      \<lparr>responses = [\<lparr>header = [], written = [], checks_code = False\<rparr>,
                    \<lparr>header = [(''X-Gch-Request-ID'', ''req-1'')], written = [500], checks_code = True\<rparr>],
       wrappers = [\<lparr>ResponseWriter = ServerWriter 1, status = 500, cached = False\<rparr>],
       clock = 7, access_log = []\<rparr>)"
  by (simp add: failing_handler_def add_header_def Header_Add_def WrapResponseWriter_def
        example_world_def rw_WriteHeader.simps server_WriteHeader_def)

text \<open>
  Claim C8 at a request that ends in status 500: the response holds the request id
  \<^verbatim>\<open>req-1\<close>, and the one log line has the method \<^verbatim>\<open>GET\<close>, the URL, the status 500 and
  the seven nanoseconds the handler took.
\<close>

theorem Handler_request_id_and_access_log_witness:
  "\<exists>s e. Handler example_scope example_app failing_handler (ServerWriter 1) example_request example_world
            = Some (Return (), s\<lparr>access_log := access_log s @ [e]\<rparr>) \<and>
          (''X-Gch-Request-ID'', ''req-1'') \<in> set (header (responses s ! 1)) \<and>
          access_log s = [] \<and>
          entry_message e = ''access'' \<and>
          {(''time'', zap_Duration 7), (''method'', zap_String ''GET''),
           (''url'', zap_String ''/render/?target=a.b''), (''status'', zap_Int 500)}
            \<subseteq> set (entry_fields e)"
proof -
  let ?s1 = "snd (WrapResponseWriter (ServerWriter 1) example_world)"
  let ?s2 = "add_header 1 ''X-Gch-Request-ID'' ''req-1'' ?s1"
  let ?s3 = "\<lparr>responses = [\<lparr>header = [], written = [], checks_code = False\<rparr>,
                    \<lparr>header = [(''X-Gch-Request-ID'', ''req-1'')], written = [500], checks_code = True\<rparr>],
       wrappers = [\<lparr>ResponseWriter = ServerWriter 1, status = 500, cached = False\<rparr>],
       clock = 7, access_log = []\<rparr>"
  have 1: "rw_Header (ServerWriter 1) example_world = Some (Return 1)"
    by (simp add: rw_Header.simps example_world_def)
  have 2: "WrapResponseWriter (ServerWriter 1) example_world = (0, ?s1)"
    by (simp add: WrapResponseWriter_def example_world_def)
  have 3: "example_request = HttpRequest example_scope example_request"
    by (simp add: example_scope_def)
  have 4: "?s2 = add_header 1 ''X-Gch-Request-ID'' (RequestID example_scope (Context example_request)) ?s1"
    by (simp add: example_scope_def example_request_def)
  have 5: "failing_handler (LogWriter 0) example_request ?s2 = (Return (), example_request, ?s3)"
    by (rule example_handler_run)
  have 6: "rw_Header (ServerWriter 1) ?s3 = Some (Return 1)"
    by (simp add: rw_Header.simps)
  have 7: "Status 0 ?s3 = Return 500"
    by (simp add: Status_def)
  have 8: "clock ?s2 = 0"
    by (simp add: add_header_def WrapResponseWriter_def example_world_def)
  from Handler_request_id_and_access_log[where w = "ServerWriter 1" and s\<^sub>0 = example_world
      and h = 1 and writer = 0 and s\<^sub>1 = ?s1 and r = example_request and sc = example_scope
      and r\<^sub>0 = example_request and s\<^sub>2 = ?s2 and handler = failing_handler
      and res = "Return ()" and r' = example_request and s\<^sub>3 = ?s3 and h' = 1 and st = 500
      and app = example_app, OF 1 2 3 4 5] 6 7
  obtain e where run: "Handler example_scope example_app failing_handler (ServerWriter 1)
                         example_request example_world
                       = Some (Return (), ?s3\<lparr>access_log := access_log ?s3 @ [e]\<rparr>)"
    and msg: "entry_message e = ''access''"
    and fields: "{(''time'', zap_Duration (clock ?s3 - clock ?s2)),
                  (''method'', zap_String (Method example_request)),
                  (''url'', zap_String (URL example_request)),
                  (''status'', zap_Int 500)} \<subseteq> set (entry_fields e)"
    by blast
  from fields 8 have "{(''time'', zap_Duration 7), (''method'', zap_String ''GET''),
           (''url'', zap_String ''/render/?target=a.b''), (''status'', zap_Int 500)}
            \<subseteq> set (entry_fields e)"
    by (simp add: example_request_def)
  with run msg show ?thesis
    by (intro exI[of _ ?s3] exI[of _ e]) simp
qed

section \<open>Properties of the main function\<close>

text \<open>
  The eight patterns differ, so no registration panics and the mux holds the routes
  as listed.
\<close>

lemma register_routes:
  "register (routes app cfg) [] =
     (map (\<lambda>(pattern, h). mux_Handle pattern h) (routes app cfg), Return (routes app cfg))"
  by (simp add: routes_def Handle_def)

lemma serve_events:
  "set (fst (serve ev cfg tr)) \<subseteq>
     set tr \<union> {e. \<exists>pattern h. e = mux_Handle pattern h} \<union>
     {call_prometheus_Run cfg, call_Graphite_Start,
      call_ListenAndServe (Listen (Common cfg)) (routes \<lparr>config = cfg\<rparr> cfg)}"
  by (auto simp: serve_def register_routes Let_def split: option.splits)

text \<open>
  The pprof listener adds no call to those of \<^verbatim>\<open>main\<close>, and changes nothing when it
  fails only after \<^verbatim>\<open>main\<close> has ended.
\<close>

lemma beside_listener_events:
  "set (fst (beside_listener failure rest)) \<subseteq> set (fst rest)"
  by (auto simp: beside_listener_def split: option.splits dest: in_set_takeD)

lemma beside_listener_late:
  assumes "\<forall>err k. failure = Some (err, k) \<longrightarrow> length (fst rest) < k"
    and "snd rest \<noteq> Serving"
  shows "beside_listener failure rest = rest"
  using assms by (cases failure) (auto simp: beside_listener_def)

lemma startup_tags:
  assumes "buildTags fl"
    and "zapwriter_ApplyConfig ev (Logging cfg) = None"
    and "zapwriter_NewManager ev (Logging cfg) = None"
    and "\<forall>err k. pprof_failure fl ev cfg = Some (err, k) \<longrightarrow> 1 < k"
    and "filter serving_event tr = []" and "count_list tr (call_tagger_Make cfg) = 0"
  shows "last (fst (startup fl ev cfg tr)) = call_tagger_Make cfg \<and>
         count_list (fst (startup fl ev cfg tr)) (call_tagger_Make cfg) = 1 \<and>
         filter serving_event (fst (startup fl ev cfg tr)) = [] \<and>
         snd (startup fl ev cfg tr) = (case tagger_Make ev cfg of None \<Rightarrow> Returned | Some err \<Rightarrow> Fatal err)"
proof -
  let ?rest = "case tagger_Make ev cfg of
                 Some err \<Rightarrow> ([call_tagger_Make cfg], Fatal err)
               | None \<Rightarrow> ([call_tagger_Make cfg], Returned)"
  have "length (fst ?rest) = 1" and "snd ?rest \<noteq> Serving"
    by (simp_all split: option.splits)
  with assms(4) have "beside_listener (pprof_failure fl ev cfg) ?rest = ?rest"
    by (intro beside_listener_late) simp_all
  with assms(1,2,3,5,6) show ?thesis
    by (simp add: startup_def Let_def split: option.splits)
qed

text \<open>
  Claim C6, as amended. When the program is started with the \<^verbatim>\<open>-tags\<close> flag and
  without \<^verbatim>\<open>-version\<close>, \<^verbatim>\<open>-config-print-default\<close> and \<^verbatim>\<open>-check-config\<close>, the
  configuration is read and the logging is set up without error, and the pprof
  listener, if one is started, does not fail before \<^verbatim>\<open>main\<close> has ended (\<^verbatim>\<open>main\<close> makes
  one more call after starting it), then the last thing
  \<^verbatim>\<open>main\<close> does is the one call of \<^verbatim>\<open>tagger.Make\<close> with that configuration; no handler
  is registered and the server on the main address is not started; \<^verbatim>\<open>main\<close> returns
  when the build succeeds and ends in \<^verbatim>\<open>log.Fatal\<close> with the build's error otherwise.
\<close>

theorem tags_mode_runs_tagger_only:
  assumes "buildTags fl" and "\<not> printVersion fl" and "\<not> printDefaultConfig fl" and "\<not> checkConfig fl"
    and "config_ReadConfig ev (configFile fl) (checkConfig fl) = Inr cfg"
    and "zapwriter_ApplyConfig ev (Logging cfg) = None"
    and "zapwriter_NewManager ev (Logging cfg) = None"
    and "\<forall>err k. pprof_failure fl ev cfg = Some (err, k) \<longrightarrow> 1 < k"
  shows "last (fst (main fl ev)) = call_tagger_Make cfg \<and>
         count_list (fst (main fl ev)) (call_tagger_Make cfg) = 1 \<and>
         filter serving_event (fst (main fl ev)) = [] \<and>
         snd (main fl ev) = (case tagger_Make ev cfg of None \<Rightarrow> Returned | Some err \<Rightarrow> Fatal err)"
proof -
  have "main fl ev = startup fl ev cfg [rand_Seed, call_ReadConfig (configFile fl) (checkConfig fl)]"
    using assms(2-5) by (simp add: main_def)
  moreover have "filter serving_event [rand_Seed, call_ReadConfig (configFile fl) (checkConfig fl)] = []"
    and "count_list [rand_Seed, call_ReadConfig (configFile fl) (checkConfig fl)] (call_tagger_Make cfg) = 0"
    by simp_all
  ultimately show ?thesis
    using startup_tags[OF assms(1,6,7,8)] by simp
qed

text \<open>
  Claim C6 as stated fails on the command line \<^verbatim>\<open>-tags -version\<close>: the tags flag is
  set, and the program prints its version and returns; \<^verbatim>\<open>tagger.Make\<close> is not called.
  It fails as well on \<^verbatim>\<open>-tags -pprof nonsense\<close> when the listener's error comes at
  once: the process ends with that error, and \<^verbatim>\<open>tagger.Make\<close> is not called.
\<close>

theorem tags_flag_counterexample:
  "buildTags tags_version_flags \<and>
   main tags_version_flags example_env = ([rand_Seed, fmt_Print ''0.13.4''], Returned) \<and>
   buildTags tags_pprof_flags \<and>
   main tags_pprof_flags pprof_fails_env =
     ([rand_Seed,
       call_ReadConfig ''/etc/graphite-clickhouse/graphite-clickhouse.conf'' False,
       call_ApplyConfig [], call_NewManager [],
       logger_Info ''start'' ''starting graphite-clickhouse'' [''build_version''],
       runtime_GOMAXPROCS 1,
       go_ListenAndServe ''nonsense''], Fatal missing_port)"
proof -
  have "buildTags tags_version_flags"
    and "main tags_version_flags example_env = ([rand_Seed, fmt_Print ''0.13.4''], Returned)"
    by (simp_all add: tags_version_flags_def server_flags_def main_def Version_def)
  moreover have "buildTags tags_pprof_flags"
    by (simp add: tags_pprof_flags_def server_flags_def)
  moreover have "main tags_pprof_flags pprof_fails_env =
     ([rand_Seed,
       call_ReadConfig ''/etc/graphite-clickhouse/graphite-clickhouse.conf'' False,
       call_ApplyConfig [], call_NewManager [],
       logger_Info ''start'' ''starting graphite-clickhouse'' [''build_version''],
       runtime_GOMAXPROCS 1,
       go_ListenAndServe ''nonsense''], Fatal missing_port)"
    by (simp add: main_def startup_def beside_listener_def pprof_failure_def tags_pprof_flags_def
          server_flags_def pprof_fails_env_def example_env_def example_config_def Let_def)
  ultimately show ?thesis by simp
qed

text \<open>
  The amended claim C6 on the command line \<^verbatim>\<open>-tags\<close>: the whole trace, and the
  fatal end when the build fails. On \<^verbatim>\<open>-tags -pprof nonsense\<close> with a listener that
  fails late, \<^verbatim>\<open>main\<close> has called \<^verbatim>\<open>tagger.Make\<close> and returned before.
\<close>

theorem tags_mode_runs_tagger_only_witness:
  "main tags_flags example_env =
     ([rand_Seed,
       call_ReadConfig ''/etc/graphite-clickhouse/graphite-clickhouse.conf'' False,
       call_ApplyConfig [], call_NewManager [],
       logger_Info ''start'' ''starting graphite-clickhouse'' [''build_version''],
       runtime_GOMAXPROCS 1,
       call_tagger_Make example_config], Returned) \<and>
   last (fst (main tags_flags example_env)) = call_tagger_Make example_config \<and>
   filter serving_event (fst (main tags_flags example_env)) = [] \<and>
   snd (main tags_flags (example_env\<lparr>tagger_Make := (\<lambda>cfg. Some (Error ''no table''))\<rparr>))
     = Fatal (Error ''no table'') \<and>
   pprof_failure tags_pprof_flags pprof_fails_late_env example_config = Some (missing_port, 5) \<and>
   last (fst (main tags_pprof_flags pprof_fails_late_env)) = call_tagger_Make example_config \<and>
   snd (main tags_pprof_flags pprof_fails_late_env) = Returned"
proof -
  have run: "main tags_flags example_env =
     ([rand_Seed,
       call_ReadConfig ''/etc/graphite-clickhouse/graphite-clickhouse.conf'' False,
       call_ApplyConfig [], call_NewManager [],
       logger_Info ''start'' ''starting graphite-clickhouse'' [''build_version''],
       runtime_GOMAXPROCS 1,
       call_tagger_Make example_config], Returned)"
    by (simp add: main_def startup_def beside_listener_def pprof_failure_def tags_flags_def
          server_flags_def example_env_def example_config_def Let_def)
  have a: "last (fst (main tags_flags example_env)) = call_tagger_Make example_config \<and>
         count_list (fst (main tags_flags example_env)) (call_tagger_Make example_config) = 1 \<and>
         filter serving_event (fst (main tags_flags example_env)) = [] \<and>
         snd (main tags_flags example_env) =
           (case tagger_Make example_env example_config of None \<Rightarrow> Returned | Some err \<Rightarrow> Fatal err)"
    by (rule tags_mode_runs_tagger_only)
       (simp_all add: tags_flags_def server_flags_def example_env_def example_config_def
          pprof_failure_def)
  let ?ev = "example_env\<lparr>tagger_Make := (\<lambda>cfg. Some (Error ''no table''))\<rparr>"
  have b: "last (fst (main tags_flags ?ev)) = call_tagger_Make example_config \<and>
         count_list (fst (main tags_flags ?ev)) (call_tagger_Make example_config) = 1 \<and>
         filter serving_event (fst (main tags_flags ?ev)) = [] \<and>
         snd (main tags_flags ?ev) =
           (case tagger_Make ?ev example_config of None \<Rightarrow> Returned | Some err \<Rightarrow> Fatal err)"
    by (rule tags_mode_runs_tagger_only)
       (simp_all add: tags_flags_def server_flags_def example_env_def example_config_def
          pprof_failure_def)
  have late: "pprof_failure tags_pprof_flags pprof_fails_late_env example_config = Some (missing_port, 5)"
    by (simp add: pprof_failure_def tags_pprof_flags_def server_flags_def pprof_fails_late_env_def
          example_env_def)
  have c: "last (fst (main tags_pprof_flags pprof_fails_late_env)) = call_tagger_Make example_config \<and>
         count_list (fst (main tags_pprof_flags pprof_fails_late_env)) (call_tagger_Make example_config) = 1 \<and>
         filter serving_event (fst (main tags_pprof_flags pprof_fails_late_env)) = [] \<and>
         snd (main tags_pprof_flags pprof_fails_late_env) =
           (case tagger_Make pprof_fails_late_env example_config of
              None \<Rightarrow> Returned | Some err \<Rightarrow> Fatal err)"
    by (rule tags_mode_runs_tagger_only)
       (simp_all add: late,
        simp_all add: tags_pprof_flags_def server_flags_def pprof_fails_late_env_def example_env_def)
  have "tagger_Make pprof_fails_late_env example_config = None"
    by (simp add: pprof_fails_late_env_def example_env_def)
  with run a b c late show ?thesis by simp
qed

lemma startup_serves:
  assumes "call_ListenAndServe listen mux \<in> set (fst (startup fl ev cfg tr))"
    and "call_ListenAndServe listen mux \<notin> set tr"
  shows "listen = Listen (Common cfg) \<and> mux = routes \<lparr>config = cfg\<rparr> cfg"
proof -
  let ?rest = "if buildTags fl then
                 (case tagger_Make ev cfg of
                    Some err \<Rightarrow> ([call_tagger_Make cfg], Fatal err)
                  | None \<Rightarrow> ([call_tagger_Make cfg], Returned))
               else serve ev cfg []"
  from assms have "call_ListenAndServe listen mux \<in> set (fst (beside_listener (pprof_failure fl ev cfg) ?rest))"
    by (auto simp: startup_def Let_def split: option.splits if_splits prod.splits)
  with beside_listener_events have "call_ListenAndServe listen mux \<in> set (fst ?rest)"
    by blast
  then have "call_ListenAndServe listen mux \<in> set (fst (serve ev cfg []))"
    by (auto split: if_splits option.splits)
  with serve_events[of ev cfg "[]"] show ?thesis
    by auto
qed

text \<open>
  Claim C7. Whenever \<^verbatim>\<open>main\<close> starts the server on the main address, the mux it
  serves holds, for the configuration that was read: under \<^verbatim>\<open>/metrics/find/\<close> the find
  handler, under \<^verbatim>\<open>/render/\<close> the render handler, under
  \<^verbatim>\<open>/tags/autoComplete/tags\<close> the handler for tag names and under
  \<^verbatim>\<open>/tags/autoComplete/values\<close> the handler for tag values, each wrapped by
  \<^verbatim>\<open>app.Handler\<close>.
\<close>

theorem mux_routes_to_wrapped_handlers:
  assumes "call_ListenAndServe listen mux \<in> set (fst (main fl ev))"
  shows "\<exists>cfg. config_ReadConfig ev (configFile fl) (checkConfig fl) = Inr cfg \<and>
           listen = Listen (Common cfg) \<and>
           mux_handler mux ''/metrics/find/'' = Some (App_Handler \<lparr>config = cfg\<rparr> (find_NewHandler cfg)) \<and>
           mux_handler mux ''/render/'' = Some (App_Handler \<lparr>config = cfg\<rparr> (render_NewHandler cfg)) \<and>
           mux_handler mux ''/tags/autoComplete/tags'' =
             Some (App_Handler \<lparr>config = cfg\<rparr> (autocomplete_NewTags cfg)) \<and>
           mux_handler mux ''/tags/autoComplete/values'' =
             Some (App_Handler \<lparr>config = cfg\<rparr> (autocomplete_NewValues cfg))"
proof -
  from assms obtain cfg where cfg: "config_ReadConfig ev (configFile fl) (checkConfig fl) = Inr cfg"
    and st: "call_ListenAndServe listen mux \<in>
               set (fst (startup fl ev cfg [rand_Seed, call_ReadConfig (configFile fl) (checkConfig fl)]))"
    by (auto simp: main_def split: if_splits option.splits sum.splits)
  from startup_serves[OF st] have "listen = Listen (Common cfg)" and "mux = routes \<lparr>config = cfg\<rparr> cfg"
    by simp_all
  with cfg show ?thesis
    by (simp add: mux_handler_def routes_def)
qed

text \<open>
  Claim C7 on the command line without flags: the server is started with the eight
  routes, and \<^verbatim>\<open>/render/\<close> is the wrapped render handler.
\<close>

theorem mux_routes_to_wrapped_handlers_witness:
  "call_ListenAndServe '':9090'' (routes \<lparr>config = example_config\<rparr> example_config)
     \<in> set (fst (main server_flags example_env)) \<and>
   snd (main server_flags example_env) = Serving \<and>
   mux_handler (routes \<lparr>config = example_config\<rparr> example_config) ''/render/'' =
     Some (App_Handler \<lparr>config = example_config\<rparr> (render_NewHandler example_config))"
proof -
  have run: "main server_flags example_env =
     ([rand_Seed,
       call_ReadConfig ''/etc/graphite-clickhouse/graphite-clickhouse.conf'' False,
       call_ApplyConfig [], call_NewManager [],
       logger_Info ''start'' ''starting graphite-clickhouse'' [''build_version''],
       runtime_GOMAXPROCS 1] @
      map (\<lambda>(pattern, h). mux_Handle pattern h) (routes \<lparr>config = example_config\<rparr> example_config) @
      [call_ListenAndServe '':9090'' (routes \<lparr>config = example_config\<rparr> example_config)], Serving)"
    by (simp add: main_def startup_def serve_def register_routes server_flags_def example_env_def
          beside_listener_def pprof_failure_def Let_def) (simp add: example_config_def)
  then have mem: "call_ListenAndServe '':9090'' (routes \<lparr>config = example_config\<rparr> example_config)
     \<in> set (fst (main server_flags example_env))"
    by simp
  from mux_routes_to_wrapped_handlers[OF mem] run mem show ?thesis
    by (auto simp: example_env_def)
qed

section \<open>Properties of the render alignment\<close>

lemma bucket_values_gap:
  "(\<forall>p \<in> set raw. bucket_of start step (fst p) \<noteq> k) \<Longrightarrow> bucket_values start step raw k = []"
  by (simp add: bucket_values_def filter_empty_conv)

lemma align_nth:
  "k < n \<Longrightarrow> align agg start step n raw ! k = align_bucket agg start step raw (int k)"
  by (simp add: align_def)

text \<open>
  Claim C3. With the raw points \<^verbatim>\<open>{(t=5,v=1),(t=7,v=3)}\<close>, \<^verbatim>\<open>start=0\<close> and
  \<^verbatim>\<open>step=10\<close>, the single output bucket is at \<^verbatim>\<open>t=0\<close> and holds the configured
  aggregation of the values 1 and 3; with \<^verbatim>\<open>avg\<close> that is 2. In every alignment a
  bucket that no raw point falls into is marked \<^verbatim>\<open>present=false\<close>; it is not a point
  that is present with the value zero.
\<close>

theorem render_alignment:
  "align agg 0 10 1 example_raw = [\<lparr>timestamp = 0, point_value = agg [1, 3], present = True\<rparr>] \<and>
   align avg 0 10 1 example_raw = [\<lparr>timestamp = 0, point_value = 2, present = True\<rparr>] \<and>
   (0 < step \<and> k < n \<and> (\<forall>p \<in> set raw. bucket_of start step (fst p) \<noteq> int k) \<longrightarrow>
      present (align agg start step n raw ! k) = False \<and>
      align agg start step n raw ! k \<noteq>
        \<lparr>timestamp = start + int k * step, point_value = 0, present = True\<rparr>)"
proof (intro conjI impI)
  have vs: "bucket_values 0 10 example_raw 0 = [1, 3]"
    by (simp add: bucket_values_def bucket_of_def example_raw_def)
  show "align agg 0 10 1 example_raw = [\<lparr>timestamp = 0, point_value = agg [1, 3], present = True\<rparr>]"
    by (simp add: align_def align_bucket_def vs)
  show "align avg 0 10 1 example_raw = [\<lparr>timestamp = 0, point_value = 2, present = True\<rparr>]"
    by (simp add: align_def align_bucket_def vs avg_def)
next
  assume h: "0 < step \<and> k < n \<and> (\<forall>p \<in> set raw. bucket_of start step (fst p) \<noteq> int k)"
  then have "bucket_values start step raw (int k) = []"
    by (simp add: bucket_values_gap)
  with h have "align agg start step n raw ! k =
      \<lparr>timestamp = start + int k * step, point_value = 0, present = False\<rparr>"
    by (simp add: align_nth align_bucket_def)
  then show "present (align agg start step n raw ! k) = False"
    and "align agg start step n raw ! k \<noteq>
        \<lparr>timestamp = start + int k * step, point_value = 0, present = True\<rparr>"
    by simp_all
qed

text \<open>
  Claim C3 with two buckets: the second one, from 10 to 20, has no raw point and is
  absent.
\<close>

theorem render_alignment_witness:
  "align avg 0 10 2 example_raw =
     [\<lparr>timestamp = 0, point_value = 2, present = True\<rparr>,
      \<lparr>timestamp = 10, point_value = 0, present = False\<rparr>] \<and>
   present (align avg 0 10 2 example_raw ! 1) = False"
proof -
  have gap: "(0::int) < 10 \<and> (1::nat) < 2 \<and> (\<forall>p \<in> set example_raw. bucket_of 0 10 (fst p) \<noteq> int 1)"
    by (simp add: example_raw_def bucket_of_def)
  have "align avg 0 10 2 example_raw =
     [\<lparr>timestamp = 0, point_value = 2, present = True\<rparr>,
      \<lparr>timestamp = 10, point_value = 0, present = False\<rparr>]"
    by (simp add: align_def align_bucket_def bucket_values_def bucket_of_def example_raw_def avg_def
          upt_rec numeral_2_eq_2)
  with render_alignment[of avg 10 1 2 example_raw 0] gap show ?thesis
    by simp
qed

section \<open>Properties of the cluster executor\<close>

lemma query_shard_all_failed:
  "\<forall>h \<in> set hs. host_failed h \<Longrightarrow> query_shard hs = None"
  by (induction hs rule: query_shard.induct) simp_all

text \<open>
  Claim C4. If all replicas of a shard of the request fail, \<^verbatim>\<open>Execute\<close> returns
  \<^verbatim>\<open>ExecError(PartialClusterFailure, failedShards)\<close>, where \<^verbatim>\<open>failedShards\<close> are the
  shards that failed and that shard is among them; it does not return rows, whatever
  the other shards answered. With shard A answering and both replicas of shard B
  failing, the result is \<^verbatim>\<open>ExecError(PartialClusterFailure, {B})\<close>.
\<close>

theorem Execute_partial_cluster_failure:
  "(sh \<in> set shards \<and> (\<forall>h \<in> set (replicas sh). host_failed h) \<longrightarrow>
      (\<exists>failedShards. Execute shards = Inl (ExecError PartialClusterFailure failedShards) \<and>
         shard_name sh \<in> set failedShards \<and>
         set failedShards = shard_name ` {sh' \<in> set shards. query_shard (replicas sh') = None}) \<and>
      (\<forall>rows. Execute shards \<noteq> Inr rows)) \<and>
   Execute [shard_A, shard_B] = Inl (ExecError PartialClusterFailure [''B''])"
proof (intro conjI impI)
  assume h: "sh \<in> set shards \<and> (\<forall>h \<in> set (replicas sh). host_failed h)"
  then have "query_shard (replicas sh) = None"
    by (simp add: query_shard_all_failed)
  with h have mem: "sh \<in> set (filter (\<lambda>sh. query_shard (replicas sh) = None) shards)"
    by simp
  then have ne: "map shard_name (filter (\<lambda>sh. query_shard (replicas sh) = None) shards) \<noteq> []"
    by (auto simp: filter_empty_conv)
  then have ex: "Execute shards = Inl (ExecError PartialClusterFailure
      (map shard_name (filter (\<lambda>sh. query_shard (replicas sh) = None) shards)))"
    by (simp add: Execute_def Let_def)
  from mem have "shard_name sh \<in> set (map shard_name (filter (\<lambda>sh. query_shard (replicas sh) = None) shards))"
    by (simp only: set_map) (rule imageI)
  with ex show "\<exists>failedShards. Execute shards = Inl (ExecError PartialClusterFailure failedShards) \<and>
         shard_name sh \<in> set failedShards \<and>
         set failedShards = shard_name ` {sh' \<in> set shards. query_shard (replicas sh') = None}"
    by auto
  from ex show "\<forall>rows. Execute shards \<noteq> Inr rows" by simp
next
  show "Execute [shard_A, shard_B] = Inl (ExecError PartialClusterFailure [''B''])"
    by (simp add: Execute_def shard_A_def shard_B_def)
qed

text \<open>
  Claim C4 at the shards A and B: B is in the list of failed shards although A has
  answered with two paths.
\<close>

theorem Execute_partial_cluster_failure_witness:
  "shard_B \<in> set [shard_A, shard_B] \<and> list_all host_failed (replicas shard_B) \<and>
   query_shard (replicas shard_A) = Some [''a.b.c'', ''a.b.d''] \<and>
   (\<exists>failedShards. Execute [shard_A, shard_B] = Inl (ExecError PartialClusterFailure failedShards) \<and>
      ''B'' \<in> set failedShards)"
proof -
  have h: "shard_B \<in> set [shard_A, shard_B] \<and> (\<forall>h \<in> set (replicas shard_B). host_failed h)"
    by (simp add: shard_B_def)
  have a: "query_shard (replicas shard_A) = Some [''a.b.c'', ''a.b.d'']"
    by (simp add: shard_A_def)
  from Execute_partial_cluster_failure[of shard_B "[shard_A, shard_B]"] h
  obtain failedShards where "Execute [shard_A, shard_B] = Inl (ExecError PartialClusterFailure failedShards)"
    and "shard_name shard_B \<in> set failedShards"
    by blast
  with h a show ?thesis
    by (auto simp: shard_B_def list_all_iff)
qed

end
